theory Spec2Isabelle
  imports Main
begin

section \<open>Python values\<close>

text \<open>
  The values that flow through \<^verbatim>\<open>prefect/backend/flow.py\<close>: the JSON data of a GraphQL
  response (null, booleans, integers, strings, lists, objects with string keys) and the
  \<^verbatim>\<open>EnumValue\<close> markers the module puts into its \<^verbatim>\<open>where\<close> and \<^verbatim>\<open>order_by\<close> clauses.
  A dict is an association list in insertion order; its keys are strings.
\<close>

datatype pyval =
    PNone
  | PBool bool
  | PInt int
  | PStr string
  | PList "pyval list"
  | PDict "(string \<times> pyval) list"
  | PEnum string

type_synonym dict = "(string \<times> pyval) list"

text \<open>The exceptions of the module, by class and by message. The messages of the
  module's own \<^verbatim>\<open>raise\<close> statements are f-strings; each is a constructor that carries the
  interpolated values.\<close>

datatype exc_class =
    TypeError
  | ValueError
  | KeyError
  | IndexError
  | AttributeError
  | OtherException string

datatype message =
    UnexpectedFlowIdType string
    \<comment> \<open>\<^verbatim>\<open>Unexpected type {type(flow_id)!r} for `flow_id`, expected 'str'.\<close>\<close>
  | FoundMultipleMatching pyval
    \<comment> \<open>\<^verbatim>\<open>Found multiple flows matching {where}. Provide a `project_name` as well or ...\<close>\<close>
  | FoundMultipleFlows nat pyval pyval
    \<comment> \<open>\<^verbatim>\<open>Found multiple ({len(flows)}) flows while querying for flows where {where}: {flows}\<close>\<close>
  | BadVariableType string string
    \<comment> \<open>\<^verbatim>\<open>Passed variable {key!r} is of type {type(val).__name__}, expected 'dict'. ...\<close>\<close>
  | ReceivedBadResult pyval pyval
    \<comment> \<open>\<^verbatim>\<open>Received bad result while querying for flows where {where}: {result}\<close>\<close>
  | NoResultsFound pyval
    \<comment> \<open>\<^verbatim>\<open>No results found while querying for flows where {where!r}\<close>\<close>
  | MissingKey pyval
    \<comment> \<open>the argument of a \<^verbatim>\<open>KeyError\<close>\<close>
  | Interpreter
    \<comment> \<open>a message of the interpreter itself (no attribute, not subscriptable, bad call)\<close>
  | Text string
    \<comment> \<open>a message of a collaborator\<close>

datatype exn = Exn (exn_class: exc_class) (exn_message: message)

fun truthy :: "pyval \<Rightarrow> bool" where
  "truthy PNone = False"
| "truthy (PBool b) = b"
| "truthy (PInt i) = (i \<noteq> 0)"
| "truthy (PStr s) = (s \<noteq> [])"
| "truthy (PList xs) = (xs \<noteq> [])"
| "truthy (PDict d) = (d \<noteq> [])"
| "truthy (PEnum e) = True"

fun type_name :: "pyval \<Rightarrow> string" where
  "type_name PNone = ''NoneType''"
| "type_name (PBool b) = ''bool''"
| "type_name (PInt i) = ''int''"
| "type_name (PStr s) = ''str''"
| "type_name (PList xs) = ''list''"
| "type_name (PDict d) = ''dict''"
| "type_name (PEnum e) = ''EnumValue''"

fun is_str :: "pyval \<Rightarrow> bool" where
  "is_str (PStr s) = True"
| "is_str v = False"

fun is_dict :: "pyval \<Rightarrow> bool" where
  "is_dict (PDict d) = True"
| "is_dict v = False"

text \<open>\<^verbatim>\<open>len(x)\<close>: defined on lists, dicts and strings, a \<^verbatim>\<open>TypeError\<close> elsewhere.\<close>

fun py_len :: "pyval \<Rightarrow> exn + nat" where
  "py_len (PList xs) = Inr (length xs)"
| "py_len (PDict d) = Inr (length (remdups (map fst d)))"
| "py_len (PStr s) = Inr (length s)"
| "py_len v = Inl (Exn TypeError Interpreter)"

text \<open>\<^verbatim>\<open>x[0]\<close>: the first element of a list or string (\<^verbatim>\<open>IndexError\<close> when empty), a
  key lookup on a dict (the keys are strings, so \<^verbatim>\<open>0\<close> is never one), a \<^verbatim>\<open>TypeError\<close>
  elsewhere.\<close>

fun py_getitem0 :: "pyval \<Rightarrow> exn + pyval" where
  "py_getitem0 (PList []) = Inl (Exn IndexError Interpreter)"
| "py_getitem0 (PList (x # xs)) = Inr x"
| "py_getitem0 (PStr []) = Inl (Exn IndexError Interpreter)"
| "py_getitem0 (PStr (c # cs)) = Inr (PStr [c])"
| "py_getitem0 (PDict d) = Inl (Exn KeyError (MissingKey (PInt 0)))"
| "py_getitem0 v = Inl (Exn TypeError Interpreter)"

text \<open>\<^verbatim>\<open>x[key]\<close> for a string key: a lookup on a dict, a \<^verbatim>\<open>TypeError\<close> elsewhere.\<close>

fun py_getitem :: "pyval \<Rightarrow> string \<Rightarrow> exn + pyval" where
  "py_getitem (PDict d) k =
     (case map_of d k of
        None \<Rightarrow> Inl (Exn KeyError (MissingKey (PStr k)))
      | Some v \<Rightarrow> Inr v)"
| "py_getitem v k = Inl (Exn TypeError Interpreter)"

text \<open>\<^verbatim>\<open>x.get(key, default)\<close>: only a dict has the method.\<close>

fun py_get :: "pyval \<Rightarrow> string \<Rightarrow> pyval \<Rightarrow> exn + pyval" where
  "py_get (PDict d) k dflt = (case map_of d k of None \<Rightarrow> Inr dflt | Some v \<Rightarrow> Inr v)"
| "py_get v k dflt = Inl (Exn AttributeError Interpreter)"

text \<open>\<^verbatim>\<open>d.pop(key)\<close> on a dict: the value and the dict without the key, or a
  \<^verbatim>\<open>KeyError\<close> that leaves the dict as it was.\<close>

definition dict_remove :: "string \<Rightarrow> dict \<Rightarrow> dict" where
  "dict_remove k d = filter (\<lambda>kv. fst kv \<noteq> k) d"

definition dict_pop :: "dict \<Rightarrow> string \<Rightarrow> exn + pyval \<times> dict" where
  "dict_pop d k =
     (case map_of d k of
        None \<Rightarrow> Inl (Exn KeyError (MissingKey (PStr k)))
      | Some v \<Rightarrow> Inr (v, dict_remove k d))"

text \<open>\<^verbatim>\<open>d[key] = v\<close>: replaces the value of a key in place, or adds the key at the end.\<close>

fun dict_set :: "dict \<Rightarrow> string \<Rightarrow> pyval \<Rightarrow> dict" where
  "dict_set [] k v = [(k, v)]"
| "dict_set ((k', v') # d) k v =
     (if k' = k then (k, v) # d else (k', v') # dict_set d k v)"

section \<open>Collaborators\<close>

text \<open>
  The query handed to \<^verbatim>\<open>client.graphql\<close>:
  \<^verbatim>\<open>{f"query{variable_declarations}": {with_args("flow", query_args): {...fields...}}}\<close>.
  \<^verbatim>\<open>with_args\<close> is a helper of \<^verbatim>\<open>prefect.utilities.graphql\<close>; the query keeps its two
  arguments as they are. A selected field is either \<^verbatim>\<open>True\<close> or a set of sub-fields.
\<close>

datatype selection = Selected | SubFields "string list"

record gql_query =
  q_header :: string
  q_field :: string
  q_args :: dict
  q_selection :: "(string \<times> selection) list"

text \<open>
  The collaborators of the module: the transport (\<^verbatim>\<open>prefect.Client().graphql\<close>), the two
  deserialization schemas (\<^verbatim>\<open>FlowSchema().load\<close>, \<^verbatim>\<open>StorageSchema().load\<close>) and the
  \<^verbatim>\<open>serialize\<close> method of a flow object. Each may raise. \<open>'f\<close> is the type of flow objects,
  \<open>'s\<close> the type of storage objects.
\<close>

record ('f, 's) collaborators =
  graphql :: "gql_query \<Rightarrow> pyval \<Rightarrow> exn + pyval"
  flow_schema_load :: "pyval \<Rightarrow> exn + 'f"
  storage_schema_load :: "pyval \<Rightarrow> exn + 's"
  serialize :: "'f \<Rightarrow> exn + pyval"

text \<open>The calls made to the transport so far, oldest first: the query and its variables.\<close>

type_synonym calls = "(gql_query \<times> pyval) list"

section \<open>FlowView\<close>

record ('f, 's) FlowView =
  flow_id :: pyval
  flow :: 'f
  settings :: pyval
  run_config :: pyval
  serialized_flow :: pyval
  archived :: pyval
  project_name :: pyval
  core_version :: pyval
  storage :: 's
  name :: pyval

text \<open>
  \<^verbatim>\<open>cls(flow_id=..., project_name=..., flow=..., storage=..., **flow_data)\<close>: the call binds
  the four explicit keywords and the entries of \<^verbatim>\<open>flow_data\<close> to the parameters of
  \<^verbatim>\<open>__init__\<close>. A key that is no parameter, a key that repeats an explicit keyword and a
  parameter left without a value are each a \<^verbatim>\<open>TypeError\<close>.
\<close>

definition init_kwargs :: "string list" where
  "init_kwargs =
     [''settings'', ''run_config'', ''serialized_flow'', ''archived'', ''core_version'', ''name'']"

definition FlowView_init ::
  "pyval \<Rightarrow> 'f \<Rightarrow> pyval \<Rightarrow> 's \<Rightarrow> dict \<Rightarrow> exn + ('f, 's) FlowView" where
  "FlowView_init fid fl pname st kwargs =
     (if filter (\<lambda>k. k \<notin> set init_kwargs) (map fst kwargs) \<noteq> [] then
        Inl (Exn TypeError Interpreter)
      else
        case (map_of kwargs ''settings'', map_of kwargs ''run_config'',
              map_of kwargs ''serialized_flow'', map_of kwargs ''archived'',
              map_of kwargs ''core_version'', map_of kwargs ''name'') of
          (Some se, Some rc, Some sf, Some ar, Some cv, Some nm) \<Rightarrow>
            Inr \<lparr>flow_id = fid, flow = fl, settings = se, run_config = rc,
                 serialized_flow = sf, archived = ar, project_name = pname,
                 core_version = cv, storage = st, name = nm\<rparr>
        | _ \<Rightarrow> Inl (Exn TypeError Interpreter))"

text \<open>
  \<^verbatim>\<open>from_flow_data\<close> mutates its argument (three \<^verbatim>\<open>pop\<close>s), so the model returns the
  result together with the argument as the call leaves it. An argument that is no dict
  fails at the first \<^verbatim>\<open>pop("id")\<close>: a list takes an integer index (\<^verbatim>\<open>TypeError\<close>), the
  other values have no such method (\<^verbatim>\<open>AttributeError\<close>).
\<close>

fun from_flow_data ::
  "('f, 's) collaborators \<Rightarrow> pyval \<Rightarrow> (exn + ('f, 's) FlowView) \<times> pyval" where
  "from_flow_data env (PDict d) =
     (case dict_pop d ''id'' of
        Inl e \<Rightarrow> (Inl e, PDict d)
      | Inr (fid, d1) \<Rightarrow>
     (case dict_pop d1 ''project'' of
        Inl e \<Rightarrow> (Inl e, PDict d1)
      | Inr (proj, d2) \<Rightarrow>
     (case py_getitem proj ''name'' of
        Inl e \<Rightarrow> (Inl e, PDict d2)
      | Inr pname \<Rightarrow>
     (case py_getitem (PDict d2) ''serialized_flow'' of
        Inl e \<Rightarrow> (Inl e, PDict d2)
      | Inr sf \<Rightarrow>
     (case flow_schema_load env sf of
        Inl e \<Rightarrow> (Inl e, PDict d2)
      | Inr deserialized_flow \<Rightarrow>
     (case dict_pop d2 ''storage'' of
        Inl e \<Rightarrow> (Inl e, PDict d2)
      | Inr (raw_storage, d3) \<Rightarrow>
     (case storage_schema_load env raw_storage of
        Inl e \<Rightarrow> (Inl e, PDict d3)
      | Inr st \<Rightarrow>
          (FlowView_init fid deserialized_flow pname st d3, PDict d3))))))))"
| "from_flow_data env (PList xs) = (Inl (Exn TypeError Interpreter), PList xs)"
| "from_flow_data env v = (Inl (Exn AttributeError Interpreter), v)"

section \<open>Queries\<close>

fun join :: "string \<Rightarrow> string list \<Rightarrow> string" where
  "join sep [] = []"
| "join sep [x] = x"
| "join sep (x # y # ys) = x @ sep @ join sep (y # ys)"

text \<open>The validation loop over \<^verbatim>\<open>jsonb_variables.items()\<close>: the first value that is no
  dict raises.\<close>

fun validate_variables :: "dict \<Rightarrow> exn option" where
  "validate_variables [] = None"
| "validate_variables ((key, val) # rest) =
     (if \<not> is_dict val then Some (Exn ValueError (BadVariableType key (type_name val)))
      else validate_variables rest)"

definition variable_declarations :: "dict \<Rightarrow> string" where
  "variable_declarations vars =
     (if vars = [] then []
      else ''('' @ join '', '' (map (\<lambda>kv. ''$'' @ fst kv @ '': jsonb'') vars) @ '')'')"

definition flow_fields :: "(string \<times> selection) list" where
  "flow_fields =
     [(''id'', Selected), (''settings'', Selected), (''run_config'', Selected),
      (''serialized_flow'', Selected), (''name'', Selected), (''archived'', Selected),
      (''project'', SubFields [''name'']), (''core_version'', Selected),
      (''storage'', Selected)]"

definition flow_query :: "pyval \<Rightarrow> pyval \<Rightarrow> dict \<Rightarrow> gql_query" where
  "flow_query where_clause order_by vars =
     \<lparr>q_header = ''query'' @ variable_declarations vars,
      q_field = ''flow'',
      q_args = (if order_by \<noteq> PNone
                then [(''where'', where_clause), (''order_by'', order_by)]
                else [(''where'', where_clause)]),
      q_selection = flow_fields\<rparr>"

text \<open>What \<^verbatim>\<open>query_for_flows\<close> does with the transport's answer.\<close>

definition read_flows :: "pyval \<Rightarrow> bool \<Rightarrow> pyval \<Rightarrow> exn + pyval" where
  "read_flows where_clause error_on_empty result =
     (case py_get result ''data'' (PDict []) of
        Inl e \<Rightarrow> Inl e
      | Inr data \<Rightarrow>
     (case py_get data ''flow'' PNone of
        Inl e \<Rightarrow> Inl e
      | Inr flows \<Rightarrow>
          if flows = PNone then Inl (Exn ValueError (ReceivedBadResult where_clause result))
          else if \<not> truthy flows then
            (if error_on_empty then Inl (Exn ValueError (NoResultsFound where_clause))
             else Inr (PList []))
          else Inr flows))"

text \<open>The transport call: the answer, and the call added to the log.\<close>

definition call_graphql ::
  "('f, 's) collaborators \<Rightarrow> gql_query \<Rightarrow> pyval \<Rightarrow> calls \<Rightarrow> (exn + pyval) \<times> calls" where
  "call_graphql env q vars log = (graphql env q vars, log @ [(q, vars)])"

definition run_flow_query ::
  "('f, 's) collaborators \<Rightarrow> pyval \<Rightarrow> pyval \<Rightarrow> bool \<Rightarrow> dict \<Rightarrow> calls \<Rightarrow>
   (exn + pyval) \<times> calls" where
  "run_flow_query env where_clause order_by error_on_empty vars log =
     (case call_graphql env (flow_query where_clause order_by vars) (PDict vars) log of
        (Inl e, log') \<Rightarrow> (Inl e, log')
      | (Inr result, log') \<Rightarrow> (read_flows where_clause error_on_empty result, log'))"

text \<open>
  \<^verbatim>\<open>query_for_flows(where, order_by=None, error_on_empty=True, jsonb_variables=None)\<close>.
  \<^verbatim>\<open>jsonb_variables or {}\<close> replaces every falsy argument by the empty dict; a truthy
  argument that is no dict has no \<^verbatim>\<open>items\<close> method.
\<close>

definition query_for_flows ::
  "('f, 's) collaborators \<Rightarrow> pyval \<Rightarrow> pyval \<Rightarrow> bool \<Rightarrow> pyval \<Rightarrow> calls \<Rightarrow>
   (exn + pyval) \<times> calls" where
  "query_for_flows env where_clause order_by error_on_empty jsonb_variables log =
     (if \<not> truthy jsonb_variables then
        run_flow_query env where_clause order_by error_on_empty [] log
      else
        case jsonb_variables of
          PDict vars \<Rightarrow>
            (case validate_variables vars of
               Some e \<Rightarrow> (Inl e, log)
             | None \<Rightarrow> run_flow_query env where_clause order_by error_on_empty vars log)
        | _ \<Rightarrow> (Inl (Exn AttributeError Interpreter), log))"

text \<open>\<^verbatim>\<open>query_for_flow(where, **kwargs)\<close>; the keyword arguments are those of
  \<^verbatim>\<open>query_for_flows\<close>.\<close>

definition query_for_flow ::
  "('f, 's) collaborators \<Rightarrow> pyval \<Rightarrow> pyval \<Rightarrow> bool \<Rightarrow> pyval \<Rightarrow> calls \<Rightarrow>
   (exn + pyval) \<times> calls" where
  "query_for_flow env where_clause order_by error_on_empty jsonb_variables log =
     (case query_for_flows env where_clause order_by error_on_empty jsonb_variables log of
        (Inl e, log') \<Rightarrow> (Inl e, log')
      | (Inr flows, log') \<Rightarrow>
          (case py_len flows of
             Inl e \<Rightarrow> (Inl e, log')
           | Inr n \<Rightarrow>
               if n > 1 then
                 (Inl (Exn ValueError (FoundMultipleFlows n where_clause flows)), log')
               else if \<not> truthy flows then (Inr (PDict []), log')
               else (py_getitem0 flows, log')))"

section \<open>The lookups\<close>

definition from_flow_id ::
  "('f, 's) collaborators \<Rightarrow> pyval \<Rightarrow> calls \<Rightarrow> (exn + ('f, 's) FlowView) \<times> calls" where
  "from_flow_id env fid log =
     (if \<not> is_str fid then
        (Inl (Exn TypeError (UnexpectedFlowIdType (type_name fid))), log)
      else
        case query_for_flow env (PDict [(''id'', PDict [(''_eq'', fid)])])
               PNone True PNone log of
          (Inl e, log') \<Rightarrow> (Inl e, log')
        | (Inr flow_data, log') \<Rightarrow> (fst (from_flow_data env flow_data), log'))"

text \<open>The \<^verbatim>\<open>where\<close> clause that \<^verbatim>\<open>from_flow_obj\<close> builds.\<close>

definition flow_obj_where :: "bool \<Rightarrow> dict" where
  "flow_obj_where allow_archived =
     (let where0 = [(''serialized_flow'', PDict [(''_eq'', PEnum ''$serialized_flow'')])]
      in if \<not> allow_archived
         then dict_set where0 ''archived'' (PDict [(''_eq'', PBool False)])
         else where0)"

definition from_flow_obj ::
  "('f, 's) collaborators \<Rightarrow> 'f \<Rightarrow> bool \<Rightarrow> calls \<Rightarrow> (exn + ('f, 's) FlowView) \<times> calls" where
  "from_flow_obj env flow_obj allow_archived log =
     (case serialize env flow_obj of
        Inl e \<Rightarrow> (Inl e, log)
      | Inr serialized \<Rightarrow>
     (case query_for_flow env (PDict (flow_obj_where allow_archived)) PNone True
             (PDict [(''serialized_flow'', serialized)]) log of
        (Inl e, log') \<Rightarrow> (Inl e, log')
      | (Inr flow_data, log') \<Rightarrow> (fst (from_flow_data env flow_data), log')))"

text \<open>
  \<^verbatim>\<open>from_flow_name(flow_name, project_name="", last_updated=False)\<close>. The name
  \<^verbatim>\<open>flows\<close> is bound to the result of \<^verbatim>\<open>query_for_flow\<close>, as in the source.
\<close>

definition flow_name_where :: "pyval \<Rightarrow> pyval \<Rightarrow> dict" where
  "flow_name_where flow_name proj_name =
     (let where0 = [(''name'', PDict [(''_eq'', flow_name)]),
                    (''archived'', PDict [(''_eq'', PBool False)])]
      in if proj_name \<noteq> PStr []
         then dict_set where0 ''project''
                (PDict [(''name'',
                   (if truthy proj_name then PDict [(''_eq'', proj_name)]
                    else PDict [(''_is_null'', PBool True)]))])
         else where0)"

definition from_flow_name ::
  "('f, 's) collaborators \<Rightarrow> pyval \<Rightarrow> pyval \<Rightarrow> bool \<Rightarrow> calls \<Rightarrow>
   (exn + ('f, 's) FlowView) \<times> calls" where
  "from_flow_name env flow_name proj_name last_updated log =
     (let where_clause = PDict (flow_name_where flow_name proj_name)
      in case query_for_flow env where_clause
                (PDict [(''updated_at'', PEnum ''desc'')]) True PNone log of
           (Inl e, log') \<Rightarrow> (Inl e, log')
         | (Inr flows, log') \<Rightarrow>
        (case py_len flows of
           Inl e \<Rightarrow> (Inl e, log')
         | Inr n \<Rightarrow>
             if n > 1 \<and> \<not> last_updated then
               (Inl (Exn ValueError (FoundMultipleMatching where_clause)), log')
             else
               (case py_getitem0 flows of
                  Inl e \<Rightarrow> (Inl e, log')
                | Inr flow_data \<Rightarrow> (fst (from_flow_data env flow_data), log'))))"

section \<open>Example collaborators\<close>

text \<open>A transport that answers every query with the same result, and schemas that
  accept every value; a record with the nine requested fields.\<close>

definition example_client :: "pyval \<Rightarrow> (pyval, pyval) collaborators" where
  "example_client result =
     \<lparr>graphql = (\<lambda>q vars. Inr result), flow_schema_load = (\<lambda>v. Inr v),
      storage_schema_load = (\<lambda>v. Inr v), serialize = (\<lambda>f. Inr f)\<rparr>"

definition example_record :: "string \<Rightarrow> dict" where
  "example_record i =
    [(''id'', PStr i), (''settings'', PDict []), (''run_config'', PDict []),
     (''serialized_flow'', PDict [(''name'', PStr ''etl'')]), (''name'', PStr ''etl''),
     (''archived'', PBool False), (''project'', PDict [(''name'', PStr ''p'')]),
     (''core_version'', PStr ''0.14.0''), (''storage'', PDict [(''type'', PStr ''Local'')])]"

definition example_answer :: "pyval list \<Rightarrow> dict" where
  "example_answer recs = [(''data'', PDict [(''flow'', PList recs)])]"

section \<open>Auxiliary facts\<close>

lemma map_of_dict_remove:
  "map_of (dict_remove k d) k' = (if k' = k then None else map_of d k')"
  by (induction d) (auto simp: dict_remove_def)

lemma keys_dict_remove: "fst ` set (dict_remove k d) = fst ` set d - {k}"
  by (auto simp: dict_remove_def)

lemma validate_variables_ok:
  "(\<forall>kv \<in> set vars. is_dict (snd kv)) \<Longrightarrow> validate_variables vars = None"
  by (induction vars) auto

lemma validate_variables_bad:
  "\<exists>kv \<in> set vars. \<not> is_dict (snd kv) \<Longrightarrow>
   \<exists>k v. (k, v) \<in> set vars \<and> \<not> is_dict v \<and>
     validate_variables vars = Some (Exn ValueError (BadVariableType k (type_name v)))"
proof (induction vars)
  case Nil
  then show ?case by simp
next
  case (Cons a vars)
  obtain k v where a: "a = (k, v)" by (cases a)
  show ?case
  proof (cases "is_dict v")
    case True
    with Cons a have "\<exists>kv \<in> set vars. \<not> is_dict (snd kv)" by auto
    from Cons.IH [OF this] True a show ?thesis by auto
  next
    case False
    with a show ?thesis by auto
  qed
qed

text \<open>\<^verbatim>\<open>query_for_flows\<close> once the variables have passed: one transport call, then the
  reading of its answer.\<close>

lemma query_for_flows_no_variables:
  "\<not> truthy jv \<Longrightarrow>
   query_for_flows env w ob eoe jv log =
     (case graphql env (flow_query w ob []) (PDict []) of
        Inl e \<Rightarrow> (Inl e, log @ [(flow_query w ob [], PDict [])])
      | Inr result \<Rightarrow> (read_flows w eoe result, log @ [(flow_query w ob [], PDict [])]))"
  by (simp add: query_for_flows_def run_flow_query_def call_graphql_def split: sum.splits)

lemma query_for_flows_variables:
  "validate_variables vars = None \<Longrightarrow>
   query_for_flows env w ob eoe (PDict vars) log =
     (case graphql env (flow_query w ob vars) (PDict vars) of
        Inl e \<Rightarrow> (Inl e, log @ [(flow_query w ob vars, PDict vars)])
      | Inr result \<Rightarrow> (read_flows w eoe result, log @ [(flow_query w ob vars, PDict vars)]))"
  by (cases vars)
     (simp_all add: query_for_flows_def run_flow_query_def call_graphql_def split: sum.splits)

lemma read_flows_list:
  "map_of result ''data'' = Some (PDict data) \<Longrightarrow> map_of data ''flow'' = Some (PList recs) \<Longrightarrow>
   read_flows w eoe (PDict result) =
     (if recs = [] then (if eoe then Inl (Exn ValueError (NoResultsFound w)) else Inr (PList []))
      else Inr (PList recs))"
  by (simp add: read_flows_def)

lemma query_for_flow_list:
  assumes "\<not> truthy jv"
    and "graphql env (flow_query w ob []) (PDict []) = Inr (PDict result)"
    and "map_of result ''data'' = Some (PDict data)"
    and "map_of data ''flow'' = Some (PList recs)"
  shows "fst (query_for_flow env w ob True jv log) =
           (case recs of
              [] \<Rightarrow> Inl (Exn ValueError (NoResultsFound w))
            | [r] \<Rightarrow> Inr r
            | _ \<Rightarrow> Inl (Exn ValueError (FoundMultipleFlows (length recs) w (PList recs))))"
  using assms
  by (simp add: query_for_flow_def query_for_flows_no_variables read_flows_list
        split: list.splits)

section \<open>Lookup by name\<close>

text \<open>
  Claim C4. When the backend answers a \<^verbatim>\<open>from_flow_name\<close> lookup with more than one
  record and \<^verbatim>\<open>last_updated\<close> is false, the call raises a \<^verbatim>\<open>ValueError\<close> whose message
  carries the number of records and the \<^verbatim>\<open>where\<close> clause used; no FlowView is returned.
\<close>

theorem from_flow_name_ambiguous:
  assumes "graphql env (flow_query (PDict (flow_name_where fn pn))
             (PDict [(''updated_at'', PEnum ''desc'')]) []) (PDict []) = Inr (PDict result)"
    and "map_of result ''data'' = Some (PDict data)"
    and "map_of data ''flow'' = Some (PList recs)"
    and "length recs > 1"
  shows "fst (from_flow_name env fn pn False log) =
           Inl (Exn ValueError
             (FoundMultipleFlows (length recs) (PDict (flow_name_where fn pn)) (PList recs)))"
proof -
  have "fst (query_for_flow env (PDict (flow_name_where fn pn))
          (PDict [(''updated_at'', PEnum ''desc'')]) True PNone log) =
        Inl (Exn ValueError
          (FoundMultipleFlows (length recs) (PDict (flow_name_where fn pn)) (PList recs)))"
    using query_for_flow_list [OF _ assms(1-3), of PNone log] assms(4)
    by (cases recs rule: list.exhaust [case_names Nil Cons])
       (auto split: list.splits)
  then show ?thesis
    by (cases "query_for_flow env (PDict (flow_name_where fn pn))
          (PDict [(''updated_at'', PEnum ''desc'')]) True PNone log")
       (simp add: from_flow_name_def Let_def)
qed

theorem from_flow_name_ambiguous_witness:
  "fst (from_flow_name
          (example_client (PDict (example_answer
             [PDict (example_record ''a''), PDict (example_record ''b'')])))
          (PStr ''etl'') (PStr []) False []) =
     Inl (Exn ValueError
       (FoundMultipleFlows 2 (PDict (flow_name_where (PStr ''etl'') (PStr [])))
          (PList [PDict (example_record ''a''), PDict (example_record ''b'')])))"
  using from_flow_name_ambiguous
    [of "example_client (PDict (example_answer
             [PDict (example_record ''a''), PDict (example_record ''b'')]))"
        "PStr ''etl''" "PStr []"
        "example_answer [PDict (example_record ''a''), PDict (example_record ''b'')]"
        "[(''flow'', PList [PDict (example_record ''a''), PDict (example_record ''b'')])]"
        "[PDict (example_record ''a''), PDict (example_record ''b'')]" "[]"]
  by (simp add: example_client_def example_answer_def)

section \<open>Lookup by id\<close>

text \<open>
  Claim C5. When the backend answers a \<^verbatim>\<open>from_flow_id\<close> lookup with an empty list of
  records, the call raises the \<^verbatim>\<open>ValueError\<close> "No results found ..."; it returns neither
  a FlowView nor a sentinel value.
\<close>

theorem from_flow_id_not_found:
  assumes "graphql env (flow_query (PDict [(''id'', PDict [(''_eq'', PStr s)])]) PNone [])
             (PDict []) = Inr (PDict result)"
    and "map_of result ''data'' = Some (PDict data)"
    and "map_of data ''flow'' = Some (PList [])"
  shows "fst (from_flow_id env (PStr s) log) =
           Inl (Exn ValueError (NoResultsFound (PDict [(''id'', PDict [(''_eq'', PStr s)])])))"
  using assms
  by (simp add: from_flow_id_def query_for_flow_def query_for_flows_no_variables
        read_flows_list)

theorem from_flow_id_not_found_witness:
  "fst (from_flow_id (example_client (PDict (example_answer []))) (PStr ''abc'') []) =
     Inl (Exn ValueError (NoResultsFound (PDict [(''id'', PDict [(''_eq'', PStr ''abc'')])])))"
  using from_flow_id_not_found
    [of "example_client (PDict (example_answer []))" "''abc''" "example_answer []"
        "[(''flow'', PList [])]" "[]"]
  by (simp add: example_client_def example_answer_def)

section \<open>The lower-level query\<close>

text \<open>
  Claim C7. A \<^verbatim>\<open>flow_id\<close> that is no string makes \<^verbatim>\<open>from_flow_id\<close> raise a
  \<^verbatim>\<open>TypeError\<close>, and a jsonb variable whose value is no dict makes \<^verbatim>\<open>query_for_flows\<close>
  raise a \<^verbatim>\<open>ValueError\<close>; in both cases the log of transport calls is what it was
  before the call, so the transport has not been invoked.
\<close>

theorem invalid_input_before_transport:
  "(\<not> is_str fid \<longrightarrow>
      from_flow_id env fid log =
        (Inl (Exn TypeError (UnexpectedFlowIdType (type_name fid))), log)) \<and>
   ((\<exists>kv \<in> set vars. \<not> is_dict (snd kv)) \<longrightarrow>
      (\<exists>k v. (k, v) \<in> set vars \<and> \<not> is_dict v \<and>
         query_for_flows env w ob eoe (PDict vars) log =
           (Inl (Exn ValueError (BadVariableType k (type_name v))), log)))"
proof (intro conjI impI)
  assume "\<not> is_str fid"
  then show "from_flow_id env fid log =
      (Inl (Exn TypeError (UnexpectedFlowIdType (type_name fid))), log)"
    by (simp add: from_flow_id_def)
next
  assume bad: "\<exists>kv \<in> set vars. \<not> is_dict (snd kv)"
  then have ne: "vars \<noteq> []" by auto
  from validate_variables_bad [OF bad] obtain k v where
    kv: "(k, v) \<in> set vars" "\<not> is_dict v"
      "validate_variables vars = Some (Exn ValueError (BadVariableType k (type_name v)))"
    by blast
  from kv(3) ne have "query_for_flows env w ob eoe (PDict vars) log =
      (Inl (Exn ValueError (BadVariableType k (type_name v))), log)"
    by (simp add: query_for_flows_def)
  with kv(1,2) show "\<exists>k v. (k, v) \<in> set vars \<and> \<not> is_dict v \<and>
         query_for_flows env w ob eoe (PDict vars) log =
           (Inl (Exn ValueError (BadVariableType k (type_name v))), log)"
    by blast
qed

theorem invalid_input_before_transport_witness:
  "from_flow_id (example_client PNone) (PInt 7) [] =
     (Inl (Exn TypeError (UnexpectedFlowIdType ''int'')), []) \<and>
   query_for_flows (example_client PNone) (PDict []) PNone True
     (PDict [(''a'', PDict []), (''b'', PStr ''x'')]) [] =
     (Inl (Exn ValueError (BadVariableType ''b'' ''str'')), [])"
  using invalid_input_before_transport
    [of "PInt 7" "example_client PNone" "[]" "[(''a'', PDict []), (''b'', PStr ''x'')]"
        "PDict []" PNone True]
  by auto

text \<open>
  Claim C8. When the backend answers a query with an empty list of records,
  \<^verbatim>\<open>query_for_flows\<close> with \<^verbatim>\<open>error_on_empty=False\<close> returns the empty list and does not
  raise; with \<^verbatim>\<open>error_on_empty=True\<close> it raises the \<^verbatim>\<open>ValueError\<close> "No results found ...".
  The jsonb variables are absent (any falsy argument) or a dict whose values are dicts.
\<close>

theorem query_for_flows_empty:
  assumes "\<not> truthy jv \<and> vars = [] \<or> jv = PDict vars \<and> (\<forall>kv \<in> set vars. is_dict (snd kv))"
    and "graphql env (flow_query w ob vars) (PDict vars) = Inr (PDict result)"
    and "map_of result ''data'' = Some (PDict data)"
    and "map_of data ''flow'' = Some (PList [])"
  shows "fst (query_for_flows env w ob False jv log) = Inr (PList []) \<and>
         fst (query_for_flows env w ob True jv log) = Inl (Exn ValueError (NoResultsFound w))"
  using assms
  by (auto simp: query_for_flows_no_variables query_for_flows_variables
        validate_variables_ok read_flows_list)

theorem query_for_flows_empty_witness:
  "fst (query_for_flows (example_client (PDict (example_answer []))) (PDict []) PNone False
          (PDict [(''v'', PDict [])]) []) = Inr (PList []) \<and>
   fst (query_for_flows (example_client (PDict (example_answer []))) (PDict []) PNone True
          (PDict [(''v'', PDict [])]) []) = Inl (Exn ValueError (NoResultsFound (PDict [])))"
  using query_for_flows_empty
    [of "PDict [(''v'', PDict [])]" "[(''v'', PDict [])]"
        "example_client (PDict (example_answer []))" "PDict []" PNone "example_answer []"
        "[(''flow'', PList [])]" "[]"]
  by (simp add: example_client_def example_answer_def)

section \<open>Construction from a record\<close>

lemma FlowView_init_flow_id:
  "FlowView_init fid fl pn st kw = Inr fv \<Longrightarrow> flow_id fv = fid"
  by (auto simp: FlowView_init_def split: if_splits option.splits)

lemma FlowView_init_ok:
  assumes "fst ` set kw = set init_kwargs"
  shows "\<exists>fv. FlowView_init fid fl pn st kw = Inr fv"
proof -
  have no_other: "filter (\<lambda>k. k \<notin> set init_kwargs) (map fst kw) = []"
    using assms by (auto simp: filter_empty_conv)
  have present: "map_of kw k \<noteq> None" if "k \<in> set init_kwargs" for k
    using that assms by (simp add: map_of_eq_None_iff)
  obtain se where se: "map_of kw ''settings'' = Some se"
    using present [of "''settings''"] by (auto simp: init_kwargs_def)
  obtain rc where rc: "map_of kw ''run_config'' = Some rc"
    using present [of "''run_config''"] by (auto simp: init_kwargs_def)
  obtain sf where sf: "map_of kw ''serialized_flow'' = Some sf"
    using present [of "''serialized_flow''"] by (auto simp: init_kwargs_def)
  obtain ar where ar: "map_of kw ''archived'' = Some ar"
    using present [of "''archived''"] by (auto simp: init_kwargs_def)
  obtain cv where cv: "map_of kw ''core_version'' = Some cv"
    using present [of "''core_version''"] by (auto simp: init_kwargs_def)
  obtain nm where nm: "map_of kw ''name'' = Some nm"
    using present [of "''name''"] by (auto simp: init_kwargs_def)
  show ?thesis
    unfolding FlowView_init_def using no_other se rc sf ar cv nm by simp
qed

lemma from_flow_data_result:
  "fst (from_flow_data env (PDict r)) = Inr fv \<Longrightarrow>
   \<exists>i f pn st kw. map_of r ''id'' = Some i \<and> FlowView_init i f pn st kw = Inr fv"
  by (auto simp: dict_pop_def split: option.splits sum.splits)

lemma from_flow_data_flow_id:
  assumes "fst (from_flow_data env (PDict r)) = Inr fv"
  shows "map_of r ''id'' = Some (flow_id fv)"
proof -
  from from_flow_data_result [OF assms] obtain i f pn st kw where
    "map_of r ''id'' = Some i" "FlowView_init i f pn st kw = Inr fv" by blast
  then show ?thesis by (simp add: FlowView_init_flow_id)
qed

lemma from_flow_data_ok:
  assumes "map_of r ''id'' = Some i"
    and "map_of r ''project'' = Some proj" and "py_getitem proj ''name'' = Inr pn"
    and "map_of r ''serialized_flow'' = Some sf" and "flow_schema_load env sf = Inr f"
    and "map_of r ''storage'' = Some raw" and "storage_schema_load env raw = Inr st"
    and "fst ` set r = set (map fst flow_fields)"
  shows "\<exists>fv. fst (from_flow_data env (PDict r)) = Inr fv"
proof -
  let ?d3 = "dict_remove ''storage'' (dict_remove ''project'' (dict_remove ''id'' r))"
  have "fst ` set ?d3 = set init_kwargs"
    using assms(8) by (auto simp: keys_dict_remove flow_fields_def init_kwargs_def)
  from FlowView_init_ok [OF this, of i f pn st] obtain fv where
    "FlowView_init i f pn st ?d3 = Inr fv" by blast
  with assms(1-7) show ?thesis
    by (simp add: dict_pop_def map_of_dict_remove)
qed

lemma filter_dict_remove:
  "k \<in> S \<Longrightarrow> filter (\<lambda>kv. fst kv \<notin> S) (dict_remove k d) = filter (\<lambda>kv. fst kv \<notin> S) d"
  by (induction d) (auto simp: dict_remove_def)

lemma dict_remove_three:
  "dict_remove c (dict_remove b (dict_remove a d)) = filter (\<lambda>kv. fst kv \<notin> {a, b, c}) d"
  by (induction d) (auto simp: dict_remove_def)

text \<open>The argument as \<^verbatim>\<open>from_flow_data\<close> leaves it, stage by stage.\<close>

lemma from_flow_data_after:
  "snd (from_flow_data env (PDict d)) =
     PDict
      (case map_of d ''id'' of
         None \<Rightarrow> d
       | Some i \<Rightarrow>
      (case map_of d ''project'' of
         None \<Rightarrow> dict_remove ''id'' d
       | Some proj \<Rightarrow>
      (case py_getitem proj ''name'' of
         Inl e \<Rightarrow> dict_remove ''project'' (dict_remove ''id'' d)
       | Inr pn \<Rightarrow>
      (case map_of d ''serialized_flow'' of
         None \<Rightarrow> dict_remove ''project'' (dict_remove ''id'' d)
       | Some sf \<Rightarrow>
      (case flow_schema_load env sf of
         Inl e \<Rightarrow> dict_remove ''project'' (dict_remove ''id'' d)
       | Inr f \<Rightarrow>
      (case map_of d ''storage'' of
         None \<Rightarrow> dict_remove ''project'' (dict_remove ''id'' d)
       | Some raw \<Rightarrow>
           dict_remove ''storage'' (dict_remove ''project'' (dict_remove ''id'' d))))))))"
  by (auto simp: dict_pop_def map_of_dict_remove split: option.splits sum.splits)

lemma from_flow_data_success_after:
  "fst (from_flow_data env (PDict d)) = Inr fv \<Longrightarrow>
   snd (from_flow_data env (PDict d)) =
     PDict (dict_remove ''storage'' (dict_remove ''project'' (dict_remove ''id'' d)))"
  by (auto simp: dict_pop_def map_of_dict_remove split: option.splits sum.splits)

text \<open>
  Claim C10. \<^verbatim>\<open>from_flow_data\<close> mutates the dict it is given. Whatever the outcome, the
  entries under the other keys stay as they were, in their order; \<^verbatim>\<open>"id"\<close> is gone once
  the first \<^verbatim>\<open>pop\<close> has passed, \<^verbatim>\<open>"project"\<close> once the second has, and \<^verbatim>\<open>"storage"\<close>
  once the call has reached the third (the project has a name and the flow schema has
  loaded the serialized flow). After a successful call the dict is the original without
  the three keys.
\<close>

theorem from_flow_data_pops:
  assumes "from_flow_data env (PDict d) = (res, after)"
  shows "\<exists>d'. after = PDict d' \<and>
           filter (\<lambda>kv. fst kv \<notin> {''id'', ''project'', ''storage''}) d' =
             filter (\<lambda>kv. fst kv \<notin> {''id'', ''project'', ''storage''}) d \<and>
           (map_of d ''id'' \<noteq> None \<longrightarrow> ''id'' \<notin> fst ` set d') \<and>
           (map_of d ''id'' \<noteq> None \<and> map_of d ''project'' \<noteq> None \<longrightarrow>
              ''project'' \<notin> fst ` set d') \<and>
           (map_of d ''id'' \<noteq> None \<and>
            (\<exists>proj pn. map_of d ''project'' = Some proj \<and> py_getitem proj ''name'' = Inr pn) \<and>
            (\<exists>sf f. map_of d ''serialized_flow'' = Some sf \<and> flow_schema_load env sf = Inr f) \<and>
            map_of d ''storage'' \<noteq> None \<longrightarrow>
              ''storage'' \<notin> fst ` set d') \<and>
           ((\<exists>fv. res = Inr fv) \<longrightarrow>
              d' = filter (\<lambda>kv. fst kv \<notin> {''id'', ''project'', ''storage''}) d)"
proof -
  from assms have res: "fst (from_flow_data env (PDict d)) = res"
    and after: "snd (from_flow_data env (PDict d)) = after" by simp_all
  define d1 where "d1 = dict_remove ''id'' d"
  define d2 where "d2 = dict_remove ''project'' d1"
  define d3 where "d3 = dict_remove ''storage'' d2"
  define d' where "d' =
      (case map_of d ''id'' of
         None \<Rightarrow> d
       | Some i \<Rightarrow>
      (case map_of d ''project'' of
         None \<Rightarrow> d1
       | Some proj \<Rightarrow>
      (case py_getitem proj ''name'' of
         Inl e \<Rightarrow> d2
       | Inr pn \<Rightarrow>
      (case map_of d ''serialized_flow'' of
         None \<Rightarrow> d2
       | Some sf \<Rightarrow>
      (case flow_schema_load env sf of
         Inl e \<Rightarrow> d2
       | Inr f \<Rightarrow>
      (case map_of d ''storage'' of
         None \<Rightarrow> d2
       | Some raw \<Rightarrow> d3))))))"
  have shape: "after = PDict d'"
    using from_flow_data_after [of env d] unfolding after d'_def d3_def d2_def d1_def .
  have stages: "d' = d \<or> d' = d1 \<or> d' = d2 \<or> d' = d3"
    unfolding d'_def by (simp split: option.splits sum.splits)
  let ?keep = "\<lambda>kv. fst kv \<notin> {''id'', ''project'', ''storage''}"
  have k1: "filter ?keep d1 = filter ?keep d"
    unfolding d1_def by (rule filter_dict_remove) simp
  have "filter ?keep d2 = filter ?keep d1"
    unfolding d2_def by (rule filter_dict_remove) simp
  from this k1 have k2: "filter ?keep d2 = filter ?keep d" by (rule trans)
  have "filter ?keep d3 = filter ?keep d2"
    unfolding d3_def by (rule filter_dict_remove) simp
  from this k2 have k3: "filter ?keep d3 = filter ?keep d" by (rule trans)
  have frame: "filter ?keep d' = filter ?keep d"
    using stages k1 k2 k3 by auto
  have id1: "''id'' \<notin> fst ` set d1" and id2: "''id'' \<notin> fst ` set d2"
    and id3: "''id'' \<notin> fst ` set d3"
    and pr2: "''project'' \<notin> fst ` set d2" and pr3: "''project'' \<notin> fst ` set d3"
    and st3: "''storage'' \<notin> fst ` set d3"
    unfolding d1_def d2_def d3_def by (simp_all add: keys_dict_remove)
  have no_id: "''id'' \<notin> fst ` set d'" if "map_of d ''id'' \<noteq> None"
    using that id1 id2 id3 unfolding d'_def by (auto split: option.splits sum.splits)
  have no_project: "''project'' \<notin> fst ` set d'"
    if "map_of d ''id'' \<noteq> None \<and> map_of d ''project'' \<noteq> None"
    using that pr2 pr3 unfolding d'_def by (auto split: option.splits sum.splits)
  have no_storage: "''storage'' \<notin> fst ` set d'"
    if "map_of d ''id'' \<noteq> None \<and>
        (\<exists>proj pn. map_of d ''project'' = Some proj \<and> py_getitem proj ''name'' = Inr pn) \<and>
        (\<exists>sf f. map_of d ''serialized_flow'' = Some sf \<and> flow_schema_load env sf = Inr f) \<and>
        map_of d ''storage'' \<noteq> None"
    using that st3 unfolding d'_def by (auto split: option.splits sum.splits)
  have success: "d' = filter ?keep d" if "\<exists>fv. res = Inr fv"
  proof -
    from that res obtain fv where "fst (from_flow_data env (PDict d)) = Inr fv" by auto
    from from_flow_data_success_after [OF this] have "after = PDict d3"
      unfolding after d3_def d2_def d1_def .
    with shape show ?thesis
      unfolding d3_def d2_def d1_def by (simp add: dict_remove_three)
  qed
  from shape frame no_id no_project no_storage success show ?thesis by blast
qed

theorem from_flow_data_pops_witness:
  "\<exists>fv. from_flow_data (example_client PNone) (PDict (example_record ''abc'')) =
     (Inr fv,
      PDict [(''settings'', PDict []), (''run_config'', PDict []),
             (''serialized_flow'', PDict [(''name'', PStr ''etl'')]), (''name'', PStr ''etl''),
             (''archived'', PBool False), (''core_version'', PStr ''0.14.0'')])"
  using from_flow_data_pops
    [of "example_client PNone" "example_record ''abc''"
        "fst (from_flow_data (example_client PNone) (PDict (example_record ''abc'')))"
        "snd (from_flow_data (example_client PNone) (PDict (example_record ''abc'')))"]
  by (simp add: example_client_def example_record_def dict_pop_def dict_remove_def
        FlowView_init_def init_kwargs_def)

text \<open>
  Claim C1. When the backend answers a \<^verbatim>\<open>from_flow_id\<close> lookup for a string id with
  exactly one record, every FlowView the call returns has the \<^verbatim>\<open>id\<close> field of that
  record as its \<^verbatim>\<open>flow_id\<close>; and the call does return a FlowView when the record has
  the requested fields, its project has a name and the two schemas load the serialized
  flow and the storage.
\<close>

theorem from_flow_id_returns_record_id:
  assumes "graphql env (flow_query (PDict [(''id'', PDict [(''_eq'', PStr s)])]) PNone [])
             (PDict []) = Inr (PDict result)"
    and "map_of result ''data'' = Some (PDict data)"
    and "map_of data ''flow'' = Some (PList [PDict r])"
  shows "(\<forall>fv. fst (from_flow_id env (PStr s) log) = Inr fv \<longrightarrow>
            map_of r ''id'' = Some (flow_id fv)) \<and>
         (map_of r ''id'' \<noteq> None \<and>
          (\<exists>proj pn. map_of r ''project'' = Some (PDict proj) \<and> map_of proj ''name'' = Some pn) \<and>
          (\<exists>sf f. map_of r ''serialized_flow'' = Some sf \<and> flow_schema_load env sf = Inr f) \<and>
          (\<exists>raw st. map_of r ''storage'' = Some raw \<and> storage_schema_load env raw = Inr st) \<and>
          fst ` set r = set (map fst flow_fields) \<longrightarrow>
          (\<exists>fv. fst (from_flow_id env (PStr s) log) = Inr fv))"
proof -
  have q: "fst (query_for_flow env (PDict [(''id'', PDict [(''_eq'', PStr s)])]) PNone True
                 PNone log) = Inr (PDict r)"
    using query_for_flow_list [OF _ assms, of PNone log] by simp
  then have id: "fst (from_flow_id env (PStr s) log) = fst (from_flow_data env (PDict r))"
    by (cases "query_for_flow env (PDict [(''id'', PDict [(''_eq'', PStr s)])]) PNone True
                 PNone log")
       (simp add: from_flow_id_def)
  show ?thesis
  proof (intro conjI allI impI)
    fix fv
    assume "fst (from_flow_id env (PStr s) log) = Inr fv"
    with id have "fst (from_flow_data env (PDict r)) = Inr fv" by simp
    then show "map_of r ''id'' = Some (flow_id fv)"
      by (rule from_flow_data_flow_id)
  next
    assume wf: "map_of r ''id'' \<noteq> None \<and>
          (\<exists>proj pn. map_of r ''project'' = Some (PDict proj) \<and> map_of proj ''name'' = Some pn) \<and>
          (\<exists>sf f. map_of r ''serialized_flow'' = Some sf \<and> flow_schema_load env sf = Inr f) \<and>
          (\<exists>raw st. map_of r ''storage'' = Some raw \<and> storage_schema_load env raw = Inr st) \<and>
          fst ` set r = set (map fst flow_fields)"
    then obtain i proj pn sf f raw st where
      "map_of r ''id'' = Some i" "map_of r ''project'' = Some (PDict proj)"
      "map_of proj ''name'' = Some pn" "map_of r ''serialized_flow'' = Some sf"
      "flow_schema_load env sf = Inr f" "map_of r ''storage'' = Some raw"
      "storage_schema_load env raw = Inr st" "fst ` set r = set (map fst flow_fields)"
      by auto
    from from_flow_data_ok [OF this(1,2) _ this(4-8), of pn] this(3) id
    show "\<exists>fv. fst (from_flow_id env (PStr s) log) = Inr fv" by simp
  qed
qed

theorem from_flow_id_returns_record_id_witness:
  "\<exists>fv. fst (from_flow_id (example_client (PDict (example_answer [PDict (example_record ''abc'')])))
            (PStr ''abc'') []) = Inr fv \<and> flow_id fv = PStr ''abc''"
  using from_flow_id_returns_record_id
    [of "example_client (PDict (example_answer [PDict (example_record ''abc'')]))" "''abc''"
        "example_answer [PDict (example_record ''abc'')]"
        "[(''flow'', PList [PDict (example_record ''abc'')])]" "example_record ''abc''" "[]"]
  by (auto simp: example_client_def example_answer_def example_record_def flow_fields_def)

section \<open>Lookup by flow object\<close>

lemma query_for_flow_log:
  "snd (query_for_flow env w ob eoe jv log) = snd (query_for_flows env w ob eoe jv log)"
  by (simp add: query_for_flow_def split: prod.splits sum.splits)

lemma query_for_flows_variables_log:
  "validate_variables vars = None \<Longrightarrow>
   snd (query_for_flows env w ob eoe (PDict vars) log) = log @ [(flow_query w ob vars, PDict vars)]"
  by (simp add: query_for_flows_variables split: sum.splits)

lemma from_flow_obj_log:
  "serialize env flow_obj = Inr serialized \<Longrightarrow>
   snd (from_flow_obj env flow_obj allow_archived log) =
     snd (query_for_flow env (PDict (flow_obj_where allow_archived)) PNone True
            (PDict [(''serialized_flow'', serialized)]) log)"
  by (simp add: from_flow_obj_def split: prod.splits sum.splits)

lemma flow_obj_query:
  "flow_query (PDict (flow_obj_where allow_archived)) PNone [(''serialized_flow'', v)] =
     \<lparr>q_header = ''query($serialized_flow: jsonb)'',
      q_field = ''flow'',
      q_args =
        [(''where'',
          PDict ((''serialized_flow'', PDict [(''_eq'', PEnum ''$serialized_flow'')]) #
                 (if allow_archived then []
                  else [(''archived'', PDict [(''_eq'', PBool False)])])))],
      q_selection = flow_fields\<rparr>"
  by (simp add: flow_query_def variable_declarations_def flow_obj_where_def)

text \<open>
  Claim C6. For a flow object whose serialized form is a dict, \<^verbatim>\<open>from_flow_obj\<close> makes
  one transport call. Its query declares the variable \<^verbatim>\<open>$serialized_flow: jsonb\<close> in the
  header; its \<^verbatim>\<open>where\<close> clause compares \<^verbatim>\<open>serialized_flow\<close> with the marker
  \<^verbatim>\<open>$serialized_flow\<close> and is the same for every flow object, so the serialized form is
  never part of it; the serialized form is handed over as the value of the variable
  \<^verbatim>\<open>serialized_flow\<close>. Unless \<^verbatim>\<open>allow_archived\<close> is true, the clause also has the entry
  \<^verbatim>\<open>archived\<close> equals \<^verbatim>\<open>False\<close>.
\<close>

theorem from_flow_obj_query:
  assumes "serialize env flow_obj = Inr (PDict s)"
  shows "snd (from_flow_obj env flow_obj allow_archived log) =
           log @
           [(\<lparr>q_header = ''query($serialized_flow: jsonb)'',
              q_field = ''flow'',
              q_args =
                [(''where'',
                  PDict ((''serialized_flow'', PDict [(''_eq'', PEnum ''$serialized_flow'')]) #
                         (if allow_archived then []
                          else [(''archived'', PDict [(''_eq'', PBool False)])])))],
              q_selection = flow_fields\<rparr>,
             PDict [(''serialized_flow'', PDict s)])]"
proof -
  have "validate_variables [(''serialized_flow'', PDict s)] = None" by simp
  from query_for_flows_variables_log [OF this]
  have "snd (query_for_flow env (PDict (flow_obj_where allow_archived)) PNone True
               (PDict [(''serialized_flow'', PDict s)]) log) =
        log @ [(flow_query (PDict (flow_obj_where allow_archived)) PNone
                  [(''serialized_flow'', PDict s)],
                PDict [(''serialized_flow'', PDict s)])]"
    by (simp only: query_for_flow_log)
  then show ?thesis
    by (simp only: from_flow_obj_log [OF assms] flow_obj_query)
qed

theorem from_flow_obj_query_witness:
  "snd (from_flow_obj (example_client (PDict (example_answer [PDict (example_record ''a'')])))
          (PDict [(''name'', PStr ''etl'')]) False []) =
     [(\<lparr>q_header = ''query($serialized_flow: jsonb)'',
        q_field = ''flow'',
        q_args =
          [(''where'',
            PDict [(''serialized_flow'', PDict [(''_eq'', PEnum ''$serialized_flow'')]),
                   (''archived'', PDict [(''_eq'', PBool False)])])],
        q_selection = flow_fields\<rparr>,
       PDict [(''serialized_flow'', PDict [(''name'', PStr ''etl'')])])]"
proof -
  have "serialize (example_client (PDict (example_answer [PDict (example_record ''a'')])))
          (PDict [(''name'', PStr ''etl'')]) = Inr (PDict [(''name'', PStr ''etl'')])"
    by (simp add: example_client_def)
  from from_flow_obj_query [OF this, of False "[]"] show ?thesis
    by (simp only: if_False append_Nil)
qed

section \<open>Malformed answers\<close>

text \<open>
  Claim C9, as the spec states it, does not hold: an answer without the flow list and an
  answer with an empty flow list both raise a \<^verbatim>\<open>ValueError\<close>, so the class of the
  exception does not tell the two apart.
\<close>

theorem bad_response_same_class_as_not_found:
  "fst (query_for_flows (example_client (PDict [(''data'', PDict [])])) (PDict []) PNone True
          PNone []) =
     Inl (Exn ValueError (ReceivedBadResult (PDict []) (PDict [(''data'', PDict [])]))) \<and>
   fst (query_for_flows (example_client (PDict (example_answer []))) (PDict []) PNone True
          PNone []) =
     Inl (Exn ValueError (NoResultsFound (PDict [])))"
  by (simp add: query_for_flows_def run_flow_query_def call_graphql_def read_flows_def
        example_client_def example_answer_def)

text \<open>
  Claim C9, amended. When the answer is a dict without the \<^verbatim>\<open>data\<close> entry, or with a
  \<^verbatim>\<open>data\<close> dict that has no \<^verbatim>\<open>flow\<close> entry, \<^verbatim>\<open>query_for_flows\<close> raises a \<^verbatim>\<open>ValueError\<close>
  with the message "Received bad result ..." that carries the \<^verbatim>\<open>where\<close> clause and the
  answer; the message differs from the one for an empty result, the class does not.
\<close>

theorem query_for_flows_bad_result:
  assumes "\<not> truthy jv \<and> vars = [] \<or> jv = PDict vars \<and> (\<forall>kv \<in> set vars. is_dict (snd kv))"
    and "graphql env (flow_query w ob vars) (PDict vars) = Inr (PDict result)"
    and "map_of result ''data'' = None \<or>
         (\<exists>data. map_of result ''data'' = Some (PDict data) \<and> map_of data ''flow'' = None)"
  shows "\<exists>e. fst (query_for_flows env w ob eoe jv log) = Inl e \<and>
             exn_class e = ValueError \<and>
             exn_message e = ReceivedBadResult w (PDict result) \<and>
             exn_message e \<noteq> NoResultsFound w"
  using assms
  by (auto simp: query_for_flows_no_variables query_for_flows_variables
        validate_variables_ok read_flows_def)

theorem query_for_flows_bad_result_witness:
  "\<exists>e. fst (query_for_flows (example_client (PDict [])) (PDict []) PNone True PNone []) = Inl e \<and>
       exn_class e = ValueError \<and>
       exn_message e = ReceivedBadResult (PDict []) (PDict []) \<and>
       exn_message e \<noteq> NoResultsFound (PDict [])"
  using query_for_flows_bad_result
    [of PNone "[]" "example_client (PDict [])" "PDict []" PNone "[]" True "[]"]
  by (simp add: example_client_def)

section \<open>Lookup by name with one record, and with the most recent of several\<close>

text \<open>
  Claim C2 fails on the code. \<^verbatim>\<open>from_flow_name\<close> binds \<^verbatim>\<open>flows\<close> to the result of
  \<^verbatim>\<open>query_for_flow\<close>, which is the single record (a dict), not a list. With one record
  of nine fields in the answer, \<^verbatim>\<open>len(flows)\<close> is 9: the default call raises the
  \<^verbatim>\<open>ValueError\<close> "Found multiple flows matching ...", and with \<^verbatim>\<open>last_updated=True\<close> the
  lookup \<^verbatim>\<open>flows[0]\<close> raises \<^verbatim>\<open>KeyError\<close>.
\<close>

theorem from_flow_name_single_record_fails:
  "fst (from_flow_name (example_client (PDict (example_answer [PDict (example_record ''a'')])))
          (PStr ''etl'') (PStr []) False []) =
     Inl (Exn ValueError (FoundMultipleMatching
            (PDict [(''name'', PDict [(''_eq'', PStr ''etl'')]),
                    (''archived'', PDict [(''_eq'', PBool False)])]))) \<and>
   fst (from_flow_name (example_client (PDict (example_answer [PDict (example_record ''a'')])))
          (PStr ''etl'') (PStr []) True []) =
     Inl (Exn KeyError (MissingKey (PInt 0)))"
  by (simp add: from_flow_name_def Let_def flow_name_where_def query_for_flow_def query_for_flows_def
        run_flow_query_def call_graphql_def read_flows_def example_client_def
        example_answer_def example_record_def)

text \<open>
  Claim C3 fails on the code. With two records in the answer and \<^verbatim>\<open>last_updated=True\<close>,
  \<^verbatim>\<open>query_for_flow\<close> raises the \<^verbatim>\<open>ValueError\<close> "Found multiple (2) flows ..." before
  \<^verbatim>\<open>from_flow_name\<close> can take the first record.
\<close>

theorem from_flow_name_last_updated_fails:
  "fst (from_flow_name
          (example_client (PDict (example_answer
             [PDict (example_record ''new''), PDict (example_record ''old'')])))
          (PStr ''etl'') (PStr []) True []) =
     Inl (Exn ValueError
       (FoundMultipleFlows 2
          (PDict [(''name'', PDict [(''_eq'', PStr ''etl'')]),
                  (''archived'', PDict [(''_eq'', PBool False)])])
          (PList [PDict (example_record ''new''), PDict (example_record ''old'')])))"
  by (simp add: from_flow_name_def Let_def flow_name_where_def query_for_flow_def query_for_flows_def
        run_flow_query_def call_graphql_def read_flows_def example_client_def
        example_answer_def)

end
